theory Spec2Isabelle
  imports Main
begin

section \<open>The progress store of enhanced\_progress\_tracking.py\<close>

text \<open>
  The module keeps its state in four tables of one SQLite file. Every function opens its
  own connection, runs a few statements and commits. The model passes the committed
  content of the file explicitly: a record of four row lists, each list in rowid order.

  \<^item> User ids are integers, as the columns \<open>user_id INTEGER REFERENCES users (id)\<close>
    declare and the pages pass (\<open>st.session_state.user_id\<close>); user 1 stands for the user
    that the specification calls u1. Text columns are \<open>string\<close>, integer columns are
    \<open>int\<close>, a nullable column is an \<open>option\<close>.
  \<^item> Python integers are unbounded and SQLite integers have 64 bits. Binding a parameter
    outside the 64-bit range raises \<open>OverflowError\<close> in \<open>cursor.execute\<close>, before the
    statement runs.
  \<^item> \<open>CURRENT_TIMESTAMP\<close> is read from the clock; the model takes the reading as the
    argument \<open>now\<close> (seconds), one reading for each call.
  \<^item> An exception is a value \<open>Inl e\<close> of a sum type; the connection of the raising
    call is then never committed, so the file content stays what it was.
\<close>

type_synonym timestamp = nat

datatype error = OperationalError string | OverflowError string

definition int64 :: "int \<Rightarrow> bool" where
  "int64 i \<longleftrightarrow> - (2 ^ 63) \<le> i \<and> i < 2 ^ 63"

definition too_large :: error where
  "too_large = OverflowError ''Python int too large to convert to SQLite INTEGER''"

record detailed_progress_row =
  dp_id :: nat
  dp_user_id :: int
  dp_skill_name :: string
  dp_course_name :: "string option"
  dp_progress_percentage :: int
  dp_time_spent_minutes :: int
  dp_last_activity :: timestamp
  dp_completion_date :: "timestamp option"
  dp_notes :: "string option"

record learning_sessions_row =
  ls_id :: nat
  ls_user_id :: int
  ls_skill_name :: string
  ls_session_date :: nat
  ls_minutes_studied :: int
  ls_notes :: string
  ls_created_at :: timestamp

record achievements_row =
  ach_id :: nat
  ach_user_id :: int
  ach_achievement_type :: string
  ach_achievement_name :: string
  ach_description :: string
  ach_earned_date :: timestamp

text \<open>
  The table \<open>learning_plans\<close> is created outside this module, which only runs
  \<open>UPDATE learning_plans SET status = ? WHERE user_id = ? AND skill_name = ?\<close> on it.
  The model takes the table to exist, with the three columns that statement names.
\<close>

record learning_plans_row =
  lp_user_id :: int
  lp_skill_name :: string
  lp_status :: string

record database =
  detailed_progress :: "detailed_progress_row list"
  learning_sessions :: "learning_sessions_row list"
  achievements :: "achievements_row list"
  learning_plans :: "learning_plans_row list"

definition empty_database :: database where
  "empty_database =
     \<lparr>detailed_progress = [], learning_sessions = [], achievements = [], learning_plans = []\<rparr>"

subsection \<open>Row identifiers and INSERT OR REPLACE\<close>

text \<open>
  Each of the three tables of \<open>update_learning_progress_database\<close> declares
  \<open>id INTEGER PRIMARY KEY AUTOINCREMENT\<close> and no other key: \<open>detailed_progress\<close> has no
  UNIQUE constraint on \<open>(user_id, skill_name)\<close>. No statement of the module supplies an
  \<open>id\<close>, so SQLite assigns one above every id of the table.
\<close>

definition next_rowid :: "nat list \<Rightarrow> nat" where
  "next_rowid ids = Suc (fold max ids 0)"

text \<open>
  \<open>INSERT OR REPLACE\<close> deletes the rows that collide with the new row on a uniqueness
  constraint and then inserts it. The only such constraint is the primary key \<open>id\<close>.
\<close>

definition insert_or_replace ::
  "detailed_progress_row \<Rightarrow> detailed_progress_row list \<Rightarrow> detailed_progress_row list"
where
  "insert_or_replace r rows =
     (let new = r\<lparr>dp_id := next_rowid (map dp_id rows)\<rparr>
      in filter (\<lambda>x. dp_id x \<noteq> dp_id new) rows @ [new])"

subsection \<open>log\_learning\_session\<close>

text \<open>
  The scalar subquery \<open>(SELECT time_spent_minutes FROM detailed_progress WHERE user_id = ?
  AND skill_name = ?)\<close> yields the value of the first matching row of the table scan, which
  runs in rowid order, and NULL when no row matches; \<open>COALESCE(_, 0)\<close> turns NULL into 0.
  \<open>DATE('now')\<close> is the day of the clock reading.
\<close>

definition select_time_spent_minutes ::
  "detailed_progress_row list \<Rightarrow> int \<Rightarrow> string \<Rightarrow> int option"
where
  "select_time_spent_minutes rows user_id skill_name =
     map_option dp_time_spent_minutes
       (find (\<lambda>r. dp_user_id r = user_id \<and> dp_skill_name r = skill_name) rows)"

definition coalesce :: "int option \<Rightarrow> int \<Rightarrow> int" where
  "coalesce v d = (case v of None \<Rightarrow> d | Some x \<Rightarrow> x)"

definition date_of :: "timestamp \<Rightarrow> nat" where
  "date_of now = now div 86400"

text \<open>
  A call ends in one of three ways. It raises \<open>OverflowError\<close> at its first
  \<open>execute\<close>, storing nothing, when \<open>user_id\<close> or \<open>minutes_studied\<close> is outside the
  64-bit range. It returns after storing the session and a progress row. Or the sum
  \<open>COALESCE(_, 0) + ?\<close> leaves the 64-bit range: SQLite then adds in floating point and the
  call stores a REAL. Floating point is not modelled; the model stops there with
  \<open>Inl Stores_real\<close>, which is not an exception of the code.
\<close>

datatype stop = Raises error | Stores_real

definition log_learning_session ::
  "timestamp \<Rightarrow> database \<Rightarrow> int \<Rightarrow> string \<Rightarrow> int \<Rightarrow> string \<Rightarrow> stop + database"
where
  "log_learning_session now db user_id skill_name minutes_studied notes =
     (if \<not> (int64 user_id \<and> int64 minutes_studied) then Inl (Raises too_large)
      else
        let db1 = db\<lparr>learning_sessions := learning_sessions db @
                     [\<lparr>ls_id = next_rowid (map ls_id (learning_sessions db)),
                       ls_user_id = user_id, ls_skill_name = skill_name,
                       ls_session_date = date_of now, ls_minutes_studied = minutes_studied,
                       ls_notes = notes, ls_created_at = now\<rparr>]\<rparr>;
            time_spent_minutes =
              coalesce (select_time_spent_minutes (detailed_progress db1) user_id skill_name) 0
                + minutes_studied
        in if \<not> int64 time_spent_minutes then Inl Stores_real
           else Inr (db1\<lparr>detailed_progress :=
                        insert_or_replace
                          \<lparr>dp_id = 0, dp_user_id = user_id, dp_skill_name = skill_name,
                            dp_course_name = None, dp_progress_percentage = 0,
                            dp_time_spent_minutes = time_spent_minutes,
                            dp_last_activity = now, dp_completion_date = None,
                            dp_notes = None\<rparr>
                          (detailed_progress db1)\<rparr>))"

subsection \<open>check\_and\_award\_achievements\<close>

text \<open>
  The function opens a connection of its own, counts the achievements of the user with type
  \<open>course_completion\<close> and name \<open>Completed {skill_name}\<close>, and inserts one when the count
  is 0. SQLite allows one write transaction on a file at a time: when another connection has
  written and not yet committed, the \<open>INSERT\<close> here waits for the lock until the timeout
  of \<open>sqlite3.connect\<close> passes and then raises
  \<open>sqlite3.OperationalError: database is locked\<close>. The argument \<open>write_locked\<close> says
  whether another connection holds such a transaction; the \<open>SELECT\<close> is not blocked by it
  and reads the committed content \<open>db\<close>.
\<close>

definition count_achievements :: "database \<Rightarrow> int \<Rightarrow> string \<Rightarrow> nat" where
  "count_achievements db user_id achievement_name =
     length (filter (\<lambda>a. ach_user_id a = user_id
                          \<and> ach_achievement_type a = ''course_completion''
                          \<and> ach_achievement_name a = achievement_name)
               (achievements db))"

definition check_and_award_achievements ::
  "bool \<Rightarrow> timestamp \<Rightarrow> database \<Rightarrow> int \<Rightarrow> string \<Rightarrow> error + database"
where
  "check_and_award_achievements write_locked now db user_id skill_name =
     (if \<not> int64 user_id then Inl too_large
      else if count_achievements db user_id (''Completed '' @ skill_name) = 0
      then if write_locked then Inl (OperationalError ''database is locked'')
           else Inr (db\<lparr>achievements := achievements db @
                      [\<lparr>ach_id = next_rowid (map ach_id (achievements db)),
                        ach_user_id = user_id,
                        ach_achievement_type = ''course_completion'',
                        ach_achievement_name = ''Completed '' @ skill_name,
                        ach_description = ''Successfully completed '' @ skill_name @ '' course'',
                        ach_earned_date = now\<rparr>]\<rparr>)
      else Inr db)"

subsection \<open>update\_course\_progress\<close>

text \<open>
  The two \<open>UPDATE\<close> statements change every row that their \<open>WHERE\<close> clause selects; a
  row whose \<open>course_name\<close> is NULL is not selected by \<open>course_name = ?\<close>.
\<close>

definition set_completion_date ::
  "timestamp \<Rightarrow> int \<Rightarrow> string \<Rightarrow> string \<Rightarrow> detailed_progress_row list
     \<Rightarrow> detailed_progress_row list"
where
  "set_completion_date now user_id skill_name course_name rows =
     map (\<lambda>r. if dp_user_id r = user_id \<and> dp_skill_name r = skill_name
                  \<and> dp_course_name r = Some course_name
               then r\<lparr>dp_completion_date := Some now\<rparr> else r) rows"

definition set_plan_status ::
  "string \<Rightarrow> int \<Rightarrow> string \<Rightarrow> learning_plans_row list \<Rightarrow> learning_plans_row list"
where
  "set_plan_status status user_id skill_name rows =
     map (\<lambda>r. if lp_user_id r = user_id \<and> lp_skill_name r = skill_name
               then r\<lparr>lp_status := status\<rparr> else r) rows"

text \<open>
  The function writes through its own connection: the \<open>INSERT OR REPLACE\<close> opens a write
  transaction that lasts until \<open>conn.commit()\<close> at the end. In the branch
  \<open>progress_percentage >= 100\<close> it calls \<open>check_and_award_achievements\<close> in the middle
  of that transaction, so the callee's second connection finds the file write-locked
  (\<open>write_locked = True\<close>) and sees the committed content \<open>db\<close>. An exception of the
  callee is not caught: it leaves \<open>update_course_progress\<close> before the commit, and nothing
  of the call is stored. The three branches set the local variable \<open>status\<close>, which the
  last statement writes to the plan rows.
\<close>

definition update_course_progress ::
  "timestamp \<Rightarrow> database \<Rightarrow> int \<Rightarrow> string \<Rightarrow> string \<Rightarrow> int \<Rightarrow> string
     \<Rightarrow> error + database"
where
  "update_course_progress now db user_id skill_name course_name progress_percentage notes =
     (if \<not> (int64 user_id \<and> int64 progress_percentage) then Inl too_large
      else
        let db1 = db\<lparr>detailed_progress :=
                       insert_or_replace
                         \<lparr>dp_id = 0, dp_user_id = user_id, dp_skill_name = skill_name,
                           dp_course_name = Some course_name,
                           dp_progress_percentage = progress_percentage,
                           dp_time_spent_minutes = 0, dp_last_activity = now,
                           dp_completion_date = None, dp_notes = Some notes\<rparr>
                         (detailed_progress db)\<rparr>
        in if progress_percentage \<ge> 100
           then (let db2 = db1\<lparr>detailed_progress :=
                                set_completion_date now user_id skill_name course_name
                                  (detailed_progress db1)\<rparr>
                 in case check_and_award_achievements True now db user_id skill_name of
                      Inl e \<Rightarrow> Inl e
                    | Inr checked \<Rightarrow>
                        Inr (db2\<lparr>achievements := achievements checked,
                                 learning_plans :=
                                   set_plan_status ''completed'' user_id skill_name
                                     (learning_plans db2)\<rparr>))
           else if progress_percentage > 0
           then Inr (db1\<lparr>learning_plans :=
                          set_plan_status ''in_progress'' user_id skill_name (learning_plans db1)\<rparr>)
           else Inr (db1\<lparr>learning_plans :=
                          set_plan_status ''not_started'' user_id skill_name (learning_plans db1)\<rparr>))"

subsection \<open>The queries\<close>

text \<open>
  \<open>ORDER BY last_activity DESC\<close>: a descending sort. SQL leaves the order of rows with
  equal keys open; the model keeps them in scan order.
\<close>

fun insert_desc :: "('a \<Rightarrow> nat) \<Rightarrow> 'a \<Rightarrow> 'a list \<Rightarrow> 'a list" where
  "insert_desc k r [] = [r]"
| "insert_desc k r (x # xs) = (if k x \<le> k r then r # x # xs else x # insert_desc k r xs)"

definition order_by_desc :: "('a \<Rightarrow> nat) \<Rightarrow> 'a list \<Rightarrow> 'a list" where
  "order_by_desc k rows = foldr (insert_desc k) rows []"

type_synonym progress_tuple =
  "string \<times> string option \<times> int \<times> int \<times> timestamp \<times> timestamp option \<times> string option"

definition get_detailed_progress :: "database \<Rightarrow> int \<Rightarrow> error + progress_tuple list" where
  "get_detailed_progress db user_id =
     (if \<not> int64 user_id then Inl too_large
      else Inr (map (\<lambda>r. (dp_skill_name r, dp_course_name r, dp_progress_percentage r,
                          dp_time_spent_minutes r, dp_last_activity r, dp_completion_date r,
                          dp_notes r))
                 (order_by_desc dp_last_activity
                    (filter (\<lambda>r. dp_user_id r = user_id) (detailed_progress db)))))"

definition get_achievements ::
  "database \<Rightarrow> int \<Rightarrow> error + (string \<times> string \<times> string \<times> timestamp) list"
where
  "get_achievements db user_id =
     (if \<not> int64 user_id then Inl too_large
      else Inr (map (\<lambda>a. (ach_achievement_type a, ach_achievement_name a, ach_description a,
                          ach_earned_date a))
                 (order_by_desc ach_earned_date
                    (filter (\<lambda>a. ach_user_id a = user_id) (achievements db)))))"

text \<open>Projections of a progress tuple, and running a second call after a first one.\<close>

definition skill_of :: "progress_tuple \<Rightarrow> string" where
  "skill_of t = fst t"

definition percentage_of :: "progress_tuple \<Rightarrow> int" where
  "percentage_of t = fst (snd (snd t))"

definition minutes_of :: "progress_tuple \<Rightarrow> int" where
  "minutes_of t = fst (snd (snd (snd t)))"

definition and_then :: "'x + 'db \<Rightarrow> ('db \<Rightarrow> 'x + 'r) \<Rightarrow> 'x + 'r" where
  "and_then r f = case_sum Inl f r"

text \<open>
  The content of the file after a call of \<open>update_course_progress\<close>: what the call
  committed, or the content before the call when it raised.
\<close>

definition committed :: "database \<Rightarrow> error + database \<Rightarrow> database" where
  "committed db r = case_sum (\<lambda>e. db) (\<lambda>db'. db') r"

subsection \<open>Example stores\<close>

text \<open>
  \<open>db_planned\<close>: user 1 has a learning plan for Python and nothing else.
  \<open>db_granted\<close>: the same store after \<open>check_and_award_achievements(1, "Python")\<close>
  was called on its own at time 5.
  \<open>db_started\<close>: \<open>db_planned\<close> after
  \<open>update_course_progress(1, "Python", "Intro", 50, "")\<close> at time 1.
  \<open>db_sql_half\<close>: the empty store after \<open>update_course_progress(1, "SQL", "", 50, "")\<close>
  at time 1.
\<close>

definition db_planned :: database where
  "db_planned =
     \<lparr>detailed_progress = [], learning_sessions = [], achievements = [],
      learning_plans =
        [\<lparr>lp_user_id = 1, lp_skill_name = ''Python'', lp_status = ''not_started''\<rparr>]\<rparr>"

definition db_granted :: database where
  "db_granted =
     \<lparr>detailed_progress = [], learning_sessions = [],
      achievements =
        [\<lparr>ach_id = 1, ach_user_id = 1, ach_achievement_type = ''course_completion'',
          ach_achievement_name = ''Completed Python'',
          ach_description = ''Successfully completed Python course'', ach_earned_date = 5\<rparr>],
      learning_plans =
        [\<lparr>lp_user_id = 1, lp_skill_name = ''Python'', lp_status = ''not_started''\<rparr>]\<rparr>"

definition db_started :: database where
  "db_started =
     \<lparr>detailed_progress =
        [\<lparr>dp_id = 1, dp_user_id = 1, dp_skill_name = ''Python'',
          dp_course_name = Some ''Intro'', dp_progress_percentage = 50,
          dp_time_spent_minutes = 0, dp_last_activity = 1,
          dp_completion_date = None, dp_notes = Some ''''\<rparr>],
      learning_sessions = [], achievements = [],
      learning_plans =
        [\<lparr>lp_user_id = 1, lp_skill_name = ''Python'', lp_status = ''in_progress''\<rparr>]\<rparr>"

definition db_sql_half :: database where
  "db_sql_half =
     \<lparr>detailed_progress =
        [\<lparr>dp_id = 1, dp_user_id = 1, dp_skill_name = ''SQL'', dp_course_name = Some '''',
          dp_progress_percentage = 50, dp_time_spent_minutes = 0, dp_last_activity = 1,
          dp_completion_date = None, dp_notes = Some ''''\<rparr>],
      learning_sessions = [], achievements = [], learning_plans = []\<rparr>"

section \<open>Properties\<close>

subsection \<open>Fresh row identifiers\<close>

lemma fold_max_ge_acc: "a \<le> fold max ids (a::nat)"
proof (induction ids arbitrary: a)
  case Nil
  show ?case by simp
next
  case (Cons i ids)
  have "a \<le> max i a" by simp
  also have "\<dots> \<le> fold max ids (max i a)" by (rule Cons.IH)
  finally show ?case by simp
qed

lemma fold_max_ge_elem: "i \<in> set ids \<Longrightarrow> i \<le> fold max ids (a::nat)"
proof (induction ids arbitrary: a)
  case Nil
  then show ?case by simp
next
  case (Cons j ids)
  show ?case
  proof (cases "i = j")
    case True
    have "i \<le> max j a" using True by simp
    also have "\<dots> \<le> fold max ids (max j a)" by (rule fold_max_ge_acc)
    finally show ?thesis by simp
  next
    case False
    with Cons.prems have "i \<in> set ids" by simp
    then show ?thesis using Cons.IH by simp
  qed
qed

lemma next_rowid_fresh: "i \<in> set ids \<Longrightarrow> i < next_rowid ids"
  using fold_max_ge_elem [of i ids 0] by (simp add: next_rowid_def)

text \<open>With an id of its own the new row collides with no row: the statement only appends.\<close>

lemma insert_or_replace_appends:
  "insert_or_replace r rows = rows @ [r\<lparr>dp_id := next_rowid (map dp_id rows)\<rparr>]"
proof -
  have "dp_id x \<noteq> next_rowid (map dp_id rows)" if "x \<in> set rows" for x
  proof -
    from that have "dp_id x \<in> set (map dp_id rows)" by simp
    then have "dp_id x < next_rowid (map dp_id rows)" by (rule next_rowid_fresh)
    then show ?thesis by simp
  qed
  then have "filter (\<lambda>x. dp_id x \<noteq> next_rowid (map dp_id rows)) rows = rows"
    by simp
  then show ?thesis by (simp add: insert_or_replace_def Let_def)
qed

subsection \<open>What one call of log\_learning\_session stores\<close>

lemma log_learning_session_overflow:
  "\<not> (int64 u \<and> int64 m) \<Longrightarrow> log_learning_session now db u s m n = Inl (Raises too_large)"
  by (simp add: log_learning_session_def)

lemma log_learning_session_real:
  "int64 u \<Longrightarrow> int64 m \<Longrightarrow>
   \<not> int64 (coalesce (select_time_spent_minutes (detailed_progress db) u s) 0 + m) \<Longrightarrow>
   log_learning_session now db u s m n = Inl Stores_real"
  by (simp add: log_learning_session_def Let_def)

lemma log_learning_session_returns:
  "int64 u \<Longrightarrow> int64 m \<Longrightarrow>
   int64 (coalesce (select_time_spent_minutes (detailed_progress db) u s) 0 + m) \<Longrightarrow>
   log_learning_session now db u s m n =
     Inr (db\<lparr>learning_sessions := learning_sessions db @
                [\<lparr>ls_id = next_rowid (map ls_id (learning_sessions db)), ls_user_id = u,
                  ls_skill_name = s, ls_session_date = date_of now,
                  ls_minutes_studied = m, ls_notes = n, ls_created_at = now\<rparr>],
              detailed_progress := detailed_progress db @
                [\<lparr>dp_id = next_rowid (map dp_id (detailed_progress db)), dp_user_id = u,
                  dp_skill_name = s, dp_course_name = None, dp_progress_percentage = 0,
                  dp_time_spent_minutes =
                    coalesce (select_time_spent_minutes (detailed_progress db) u s) 0 + m,
                  dp_last_activity = now, dp_completion_date = None, dp_notes = None\<rparr>]\<rparr>)"
  by (simp add: log_learning_session_def Let_def insert_or_replace_appends)

text \<open>
  Every call that returns has added a row for its (user, skill): the number of such rows
  grows by one with each session, whatever the store held before.
\<close>

lemma log_learning_session_adds_row:
  assumes "log_learning_session now db u s m n = Inr db'"
  shows "length (filter (\<lambda>r. dp_user_id r = u \<and> dp_skill_name r = s) (detailed_progress db'))
         = Suc (length (filter (\<lambda>r. dp_user_id r = u \<and> dp_skill_name r = s)
                          (detailed_progress db)))"
proof -
  from assms have g: "int64 u" "int64 m"
    "int64 (coalesce (select_time_spent_minutes (detailed_progress db) u s) 0 + m)"
    by (auto simp: log_learning_session_def Let_def split: if_splits)
  from assms show ?thesis
    unfolding log_learning_session_returns [OF g] by auto
qed

text \<open>
  Once a row for (user, skill) exists, the subquery reads that same first row in every later
  call: each new row holds the first row's minutes plus the minutes of its own session.
\<close>

lemma find_append_Some: "find P xs = Some x \<Longrightarrow> find P (xs @ ys) = Some x"
  by (induction xs) (auto split: if_splits)

lemma select_time_spent_minutes_append:
  "select_time_spent_minutes rows u s = Some v \<Longrightarrow>
   select_time_spent_minutes (rows @ rest) u s = Some v"
  by (auto simp: select_time_spent_minutes_def find_append_Some)

lemma log_learning_session_after_first:
  assumes "select_time_spent_minutes (detailed_progress db) u s = Some v"
    and "log_learning_session now db u s m n = Inr db'"
  shows "dp_time_spent_minutes (last (detailed_progress db')) = v + m"
    and "select_time_spent_minutes (detailed_progress db') u s = Some v"
proof -
  from assms(2) have g: "int64 u" "int64 m"
    "int64 (coalesce (select_time_spent_minutes (detailed_progress db) u s) 0 + m)"
    by (auto simp: log_learning_session_def Let_def split: if_splits)
  from assms(2) have d: "detailed_progress db' = detailed_progress db @
      [\<lparr>dp_id = next_rowid (map dp_id (detailed_progress db)), dp_user_id = u,
        dp_skill_name = s, dp_course_name = None, dp_progress_percentage = 0,
        dp_time_spent_minutes =
          coalesce (select_time_spent_minutes (detailed_progress db) u s) 0 + m,
        dp_last_activity = now, dp_completion_date = None, dp_notes = None\<rparr>]"
    unfolding log_learning_session_returns [OF g] by auto
  show "dp_time_spent_minutes (last (detailed_progress db')) = v + m"
    using assms(1) by (simp add: d coalesce_def)
  show "select_time_spent_minutes (detailed_progress db') u s = Some v"
    using assms(1) by (simp add: d select_time_spent_minutes_append)
qed

subsection \<open>What one call of update\_course\_progress stores\<close>

lemma update_course_progress_overflow:
  "\<not> (int64 u \<and> int64 p) \<Longrightarrow> update_course_progress now db u s c p n = Inl too_large"
  by (simp add: update_course_progress_def)

lemma update_course_progress_below_100:
  "int64 u \<Longrightarrow> int64 p \<Longrightarrow> p < 100 \<Longrightarrow>
   update_course_progress now db u s c p n =
     Inr (db\<lparr>detailed_progress := detailed_progress db @
                 [\<lparr>dp_id = next_rowid (map dp_id (detailed_progress db)), dp_user_id = u,
                   dp_skill_name = s, dp_course_name = Some c, dp_progress_percentage = p,
                   dp_time_spent_minutes = 0, dp_last_activity = now,
                   dp_completion_date = None, dp_notes = Some n\<rparr>],
              learning_plans :=
                set_plan_status (if 0 < p then ''in_progress'' else ''not_started'') u s
                  (learning_plans db)\<rparr>)"
  by (simp add: update_course_progress_def Let_def insert_or_replace_appends)

lemma update_course_progress_locked:
  "int64 u \<Longrightarrow> int64 p \<Longrightarrow> 100 \<le> p \<Longrightarrow>
   count_achievements db u (''Completed '' @ s) = 0 \<Longrightarrow>
   update_course_progress now db u s c p n = Inl (OperationalError ''database is locked'')"
  by (simp add: update_course_progress_def Let_def check_and_award_achievements_def)

lemma update_course_progress_granted:
  "int64 u \<Longrightarrow> int64 p \<Longrightarrow> 100 \<le> p \<Longrightarrow>
   count_achievements db u (''Completed '' @ s) \<noteq> 0 \<Longrightarrow>
   update_course_progress now db u s c p n =
     Inr (db\<lparr>detailed_progress :=
                 set_completion_date now u s c
                   (detailed_progress db @
                     [\<lparr>dp_id = next_rowid (map dp_id (detailed_progress db)), dp_user_id = u,
                       dp_skill_name = s, dp_course_name = Some c, dp_progress_percentage = p,
                       dp_time_spent_minutes = 0, dp_last_activity = now,
                       dp_completion_date = None, dp_notes = Some n\<rparr>]),
              learning_plans := set_plan_status ''completed'' u s (learning_plans db)\<rparr>)"
  by (simp add: update_course_progress_def Let_def check_and_award_achievements_def
      insert_or_replace_appends)

text \<open>What a call that returned has stored, in one statement for the three branches.\<close>

lemma update_course_progress_returned:
  assumes "update_course_progress now db u s c p n = Inr db'"
  shows "detailed_progress db' =
           (if 100 \<le> p then set_completion_date now u s c else (\<lambda>rows. rows))
             (detailed_progress db @
               [\<lparr>dp_id = next_rowid (map dp_id (detailed_progress db)), dp_user_id = u,
                 dp_skill_name = s, dp_course_name = Some c, dp_progress_percentage = p,
                 dp_time_spent_minutes = 0, dp_last_activity = now,
                 dp_completion_date = None, dp_notes = Some n\<rparr>])"
    and "learning_plans db' =
           set_plan_status
             (if 100 \<le> p then ''completed'' else if 0 < p then ''in_progress''
              else ''not_started'') u s (learning_plans db)"
    and "learning_sessions db' = learning_sessions db"
    and "achievements db' = achievements db"
proof -
  have g: "int64 u" "int64 p"
    using assms update_course_progress_overflow [of u p now db s c n] by auto
  consider (below) "p < 100"
    | (locked) "100 \<le> p" "count_achievements db u (''Completed '' @ s) = 0"
    | (granted) "100 \<le> p" "count_achievements db u (''Completed '' @ s) \<noteq> 0"
    by linarith
  then have "detailed_progress db' =
           (if 100 \<le> p then set_completion_date now u s c else (\<lambda>rows. rows))
             (detailed_progress db @
               [\<lparr>dp_id = next_rowid (map dp_id (detailed_progress db)), dp_user_id = u,
                 dp_skill_name = s, dp_course_name = Some c, dp_progress_percentage = p,
                 dp_time_spent_minutes = 0, dp_last_activity = now,
                 dp_completion_date = None, dp_notes = Some n\<rparr>])
      \<and> learning_plans db' =
           set_plan_status
             (if 100 \<le> p then ''completed'' else if 0 < p then ''in_progress''
              else ''not_started'') u s (learning_plans db)
      \<and> learning_sessions db' = learning_sessions db
      \<and> achievements db' = achievements db"
  proof cases
    case below
    with assms g show ?thesis by (auto simp: update_course_progress_below_100)
  next
    case locked
    with assms g show ?thesis by (simp add: update_course_progress_locked)
  next
    case granted
    with assms g show ?thesis by (auto simp: update_course_progress_granted)
  qed
  then show "detailed_progress db' =
           (if 100 \<le> p then set_completion_date now u s c else (\<lambda>rows. rows))
             (detailed_progress db @
               [\<lparr>dp_id = next_rowid (map dp_id (detailed_progress db)), dp_user_id = u,
                 dp_skill_name = s, dp_course_name = Some c, dp_progress_percentage = p,
                 dp_time_spent_minutes = 0, dp_last_activity = now,
                 dp_completion_date = None, dp_notes = Some n\<rparr>])"
    and "learning_plans db' =
           set_plan_status
             (if 100 \<le> p then ''completed'' else if 0 < p then ''in_progress''
              else ''not_started'') u s (learning_plans db)"
    and "learning_sessions db' = learning_sessions db"
    and "achievements db' = achievements db"
    by simp_all
qed

lemma set_completion_date_stamps:
  assumes "r \<in> set (set_completion_date now u s c rows)"
    and "dp_user_id r = u" and "dp_skill_name r = s" and "dp_course_name r = Some c"
  shows "dp_completion_date r = Some now"
proof -
  from assms(1) have
    "r \<in> (\<lambda>x. if dp_user_id x = u \<and> dp_skill_name x = s \<and> dp_course_name x = Some c
              then x\<lparr>dp_completion_date := Some now\<rparr> else x) ` set rows"
    by (simp add: set_completion_date_def)
  then obtain x where r:
    "r = (if dp_user_id x = u \<and> dp_skill_name x = s \<and> dp_course_name x = Some c
          then x\<lparr>dp_completion_date := Some now\<rparr> else x)"
    by (rule imageE)
  show ?thesis
  proof (cases "dp_user_id x = u \<and> dp_skill_name x = s \<and> dp_course_name x = Some c")
    case True
    with r show ?thesis by simp
  next
    case False
    with r have "r = x" by simp
    with False assms(2-4) show ?thesis by simp
  qed
qed

lemma set_completion_date_percentages:
  "map dp_progress_percentage (set_completion_date now u s c rows) =
     map dp_progress_percentage rows"
  by (simp add: set_completion_date_def)

lemma update_course_progress_percentages:
  assumes "update_course_progress now db u s c p n = Inr db'"
  shows "map dp_progress_percentage (detailed_progress db') =
           map dp_progress_percentage (detailed_progress db) @ [p]"
  by (simp add: update_course_progress_returned(1) [OF assms] set_completion_date_percentages)

text \<open>
  Below 100 the call returns for every id and percentage of the 64-bit range; it leaves
  the sessions and the achievements as they were.
\<close>

lemma update_course_progress_below_100_frame:
  assumes "int64 u" "int64 p" "p < 100"
  shows "\<exists>db'. update_course_progress now db u s c p n = Inr db'
           \<and> learning_sessions db' = learning_sessions db
           \<and> achievements db' = achievements db
           \<and> learning_plans db' =
               set_plan_status (if 0 < p then ''in_progress'' else ''not_started'') u s
                 (learning_plans db)"
  using assms by (simp add: update_course_progress_below_100)

lemma set_plan_status_writes:
  assumes "r \<in> set (set_plan_status status u s rows)"
    and "lp_user_id r = u" and "lp_skill_name r = s"
  shows "lp_status r = status"
proof -
  from assms(1) have
    "r \<in> (\<lambda>x. if lp_user_id x = u \<and> lp_skill_name x = s
              then x\<lparr>lp_status := status\<rparr> else x) ` set rows"
    by (simp add: set_plan_status_def)
  then obtain x where r:
    "r = (if lp_user_id x = u \<and> lp_skill_name x = s then x\<lparr>lp_status := status\<rparr> else x)"
    by (rule imageE)
  show ?thesis
  proof (cases "lp_user_id x = u \<and> lp_skill_name x = s")
    case True
    with r show ?thesis by simp
  next
    case False
    with r have "r = x" by simp
    with False assms(2,3) show ?thesis by simp
  qed
qed

subsection \<open>The example stores are states the code reaches\<close>

lemma db_granted_reached:
  "check_and_award_achievements False 5 db_planned 1 ''Python'' = Inr db_granted"
  by (simp add: check_and_award_achievements_def count_achievements_def db_planned_def
      db_granted_def next_rowid_def int64_def)

lemma db_started_reached:
  "update_course_progress 1 db_planned 1 ''Python'' ''Intro'' 50 '''' = Inr db_started"
  by (simp add: update_course_progress_below_100 int64_def db_planned_def db_started_def
      next_rowid_def set_plan_status_def)

lemma db_sql_half_reached:
  "update_course_progress 1 empty_database 1 ''SQL'' '''' 50 '''' = Inr db_sql_half"
  by (simp add: update_course_progress_below_100 int64_def empty_database_def db_sql_half_def
      next_rowid_def set_plan_status_def)

subsection \<open>Calls of check\_and\_award\_achievements on its own\<close>

text \<open>
  Called on its own, with no write transaction open elsewhere, the function grants the
  achievement once: the first call stores it, and every later call finds it and stores nothing.
\<close>

lemma check_and_award_achievements_first:
  assumes "int64 u" "count_achievements db u (''Completed '' @ s) = 0"
  shows "\<exists>db'. check_and_award_achievements False now db u s = Inr db'
           \<and> count_achievements db' u (''Completed '' @ s) = 1"
  using assms by (simp add: check_and_award_achievements_def count_achievements_def)

lemma check_and_award_achievements_again:
  "int64 u \<Longrightarrow> count_achievements db u (''Completed '' @ s) \<noteq> 0 \<Longrightarrow>
   check_and_award_achievements locked now db u s = Inr db"
  by (simp add: check_and_award_achievements_def)

section \<open>The claims\<close>

subsection \<open>C1: cumulative minutes against the sum of the sessions\<close>

text \<open>
  C1 says that after any sequence of sessions of one (user, skill) the cumulative minutes
  reported by \<open>get_detailed_progress\<close> are the sum of the minutes logged. The code is run
  here on three sessions of 90, 30 and 10 minutes for (1, Python), at the times 1, 2, 3,
  from an empty store: it reports three records, of 100, 120 and 90 minutes, and none of
  130. The first row stays at 90, and each later row is 90 plus its own session.
\<close>

theorem three_sessions_reported_minutes:
  "and_then
     (and_then
        (and_then (log_learning_session 1 empty_database 1 ''Python'' 90 '''')
           (\<lambda>d. log_learning_session 2 d 1 ''Python'' 30 ''''))
        (\<lambda>d. log_learning_session 3 d 1 ''Python'' 10 ''''))
     (\<lambda>d. map_sum Raises
             (\<lambda>ts. map minutes_of (filter (\<lambda>t. skill_of t = ''Python'') ts))
             (get_detailed_progress d 1))
   = Inr [100, 120, 90]"
  by (simp add: log_learning_session_returns and_then_def int64_def empty_database_def
      get_detailed_progress_def order_by_desc_def select_time_spent_minutes_def coalesce_def
      next_rowid_def minutes_of_def skill_of_def)

subsection \<open>C2: one record for each (user, skill)\<close>

text \<open>
  C2 says that the store never holds two records of one (user, skill). The code is run here
  on two sessions for (1, Python), and on two progress updates (50, then 30) for (1, SQL):
  each run leaves two rows of the pair in \<open>detailed_progress\<close>.
\<close>

theorem two_calls_two_records:
  "map_sum id (\<lambda>d. length (filter (\<lambda>r. dp_user_id r = 1 \<and> dp_skill_name r = ''Python'')
                               (detailed_progress d)))
     (and_then (log_learning_session 1 empty_database 1 ''Python'' 90 '''')
        (\<lambda>d. log_learning_session 2 d 1 ''Python'' 30 '''')) = Inr 2
   \<and> map_sum id (\<lambda>d. length (filter (\<lambda>r. dp_user_id r = 1 \<and> dp_skill_name r = ''SQL'')
                                  (detailed_progress d)))
       (and_then (update_course_progress 1 empty_database 1 ''SQL'' '''' 50 '''')
          (\<lambda>d. update_course_progress 2 d 1 ''SQL'' '''' 30 '''')) = Inr 2"
  by (simp add: log_learning_session_returns update_course_progress_below_100 and_then_def
      int64_def empty_database_def select_time_spent_minutes_def coalesce_def)

subsection \<open>C3: validation in log\_learning\_session\<close>

text \<open>
  C3, as stated, says that a call with an empty skill name or with minutes \<open>\<le> 0\<close> is
  rejected and leaves the session log and the stored minutes as they were. Counterexample:
  on the empty store the call \<open>(1, "", 10, "")\<close> returns, having stored a session of 10
  minutes and a progress row of 10 minutes, and the call \<open>(1, "Python", 0, "")\<close> returns,
  having stored a session of 0 minutes and a progress row for Python.
\<close>

theorem invalid_session_is_stored_counterexample:
  "learning_sessions empty_database = []
   \<and> detailed_progress empty_database = []
   \<and> map_sum id (\<lambda>d. map ls_minutes_studied (learning_sessions d))
        (log_learning_session 1 empty_database 1 '''' 10 '''') = Inr [10]
   \<and> map_sum id (\<lambda>d. map dp_time_spent_minutes (detailed_progress d))
        (log_learning_session 1 empty_database 1 '''' 10 '''') = Inr [10]
   \<and> map_sum id (\<lambda>d. map ls_minutes_studied (learning_sessions d))
        (log_learning_session 1 empty_database 1 ''Python'' 0 '''') = Inr [0]
   \<and> map_sum id (\<lambda>d. map dp_skill_name (detailed_progress d))
        (log_learning_session 1 empty_database 1 ''Python'' 0 '''') = Inr [''Python'']"
  by (simp add: log_learning_session_returns int64_def empty_database_def
      select_time_spent_minutes_def coalesce_def)

text \<open>
  C3, amended: \<open>log_learning_session\<close> does not validate the skill name or the sign of the
  minutes, and raises no validation error. For every skill name, the empty one included,
  and every user id and minutes of the 64-bit range, zero and negative minutes included,
  the call returns when the minutes it reads for the pair (0 when there are none) plus the
  minutes given stay in the 64-bit range: it has then appended the session it was given to
  the session log and written a progress row of the pair that holds that sum.
\<close>

theorem log_learning_session_accepts_every_input:
  assumes "int64 u" and "int64 m"
    and "int64 (coalesce (select_time_spent_minutes (detailed_progress db) u s) 0 + m)"
  shows "\<exists>db'. log_learning_session now db u s m n = Inr db'
          \<and> learning_sessions db' =
              learning_sessions db @
                [\<lparr>ls_id = next_rowid (map ls_id (learning_sessions db)), ls_user_id = u,
                  ls_skill_name = s, ls_session_date = date_of now,
                  ls_minutes_studied = m, ls_notes = n, ls_created_at = now\<rparr>]
          \<and> dp_user_id (last (detailed_progress db')) = u
          \<and> dp_skill_name (last (detailed_progress db')) = s
          \<and> dp_time_spent_minutes (last (detailed_progress db')) =
              coalesce (select_time_spent_minutes (detailed_progress db) u s) 0 + m"
  by (simp add: log_learning_session_returns [OF assms])

text \<open>
  Witness for C3: the call with an empty skill name and \<open>-5\<close> minutes for user 1 on the
  empty store.
\<close>

theorem log_learning_session_accepts_every_input_witness:
  "int64 1 \<and> int64 (-5)
   \<and> int64 (coalesce (select_time_spent_minutes (detailed_progress empty_database) 1 '''') 0
             + (-5))
   \<and> map_sum id (\<lambda>d. map ls_minutes_studied (learning_sessions d))
        (log_learning_session 1 empty_database 1 '''' (-5) '''') = Inr [-5]
   \<and> map_sum id (\<lambda>d. dp_time_spent_minutes (last (detailed_progress d)))
        (log_learning_session 1 empty_database 1 '''' (-5) '''') = Inr (-5)"
proof -
  have u: "int64 1" and m: "int64 (-5)" by (simp_all add: int64_def)
  have t: "int64 (coalesce (select_time_spent_minutes (detailed_progress empty_database) 1 '''') 0
                  + (-5))"
    by (simp add: int64_def empty_database_def select_time_spent_minutes_def coalesce_def)
  from log_learning_session_accepts_every_input [OF u m t, of 1 "''''"]
  obtain db' where r: "log_learning_session 1 empty_database 1 '''' (-5) '''' = Inr db'"
    and l: "learning_sessions db' =
              learning_sessions empty_database @
                [\<lparr>ls_id = next_rowid (map ls_id (learning_sessions empty_database)),
                  ls_user_id = 1, ls_skill_name = '''', ls_session_date = date_of 1,
                  ls_minutes_studied = -5, ls_notes = '''', ls_created_at = 1\<rparr>]"
    and d: "dp_time_spent_minutes (last (detailed_progress db')) =
              coalesce (select_time_spent_minutes (detailed_progress empty_database) 1 '''') 0
                + (-5)"
    by blast
  have l': "map ls_minutes_studied (learning_sessions db') = [-5]"
    by (simp add: l empty_database_def)
  have d': "dp_time_spent_minutes (last (detailed_progress db')) = -5"
    by (simp add: d empty_database_def select_time_spent_minutes_def coalesce_def)
  have a: "map_sum id (\<lambda>d. map ls_minutes_studied (learning_sessions d))
             (log_learning_session 1 empty_database 1 '''' (-5) '''') = Inr [-5]"
    using r l' by simp
  have b: "map_sum id (\<lambda>d. dp_time_spent_minutes (last (detailed_progress d)))
             (log_learning_session 1 empty_database 1 '''' (-5) '''') = Inr (-5)"
    using r d' by simp
  from u m t a b show ?thesis by (intro conjI)
qed

subsection \<open>C4: the completion timestamp\<close>

text \<open>
  C4, as stated, says that a second call with percentage 100 for the same (user, skill,
  course) leaves the completion timestamp of the first call unchanged. Counterexample: on
  \<open>db_granted\<close> the call at time 10 stores completion date 10; after the same call at time
  20 both rows of (1, Python, Intro), the one of the first call included, hold
  completion date 20.
\<close>

theorem completion_date_overwritten_counterexample:
  "map dp_completion_date
     (detailed_progress
        (committed db_granted
           (update_course_progress 10 db_granted 1 ''Python'' ''Intro'' 100 ''''))) = [Some 10]
   \<and> map_sum id (\<lambda>d. map dp_completion_date (detailed_progress d))
       (and_then (update_course_progress 10 db_granted 1 ''Python'' ''Intro'' 100 '''')
          (\<lambda>d. update_course_progress 20 d 1 ''Python'' ''Intro'' 100 ''''))
     = Inr [Some 20, Some 20]"
  by (simp add: update_course_progress_granted int64_def count_achievements_def db_granted_def
      committed_def and_then_def set_completion_date_def)

text \<open>
  C4, amended: the completion timestamp is set by every call with percentage \<open>\<ge> 100\<close>,
  not once. After such a call has returned, every stored record of its (user, skill, course)
  holds the time of that call as its completion date, whatever it held before.
\<close>

theorem update_course_progress_stamps_completion:
  assumes "update_course_progress now db u s c p n = Inr db'"
    and "100 \<le> p"
    and "r \<in> set (detailed_progress db')"
    and "dp_user_id r = u" and "dp_skill_name r = s" and "dp_course_name r = Some c"
  shows "dp_completion_date r = Some now"
proof -
  from update_course_progress_returned(1) [OF assms(1)] assms(2)
  have "detailed_progress db' =
      set_completion_date now u s c
        (detailed_progress db @
          [\<lparr>dp_id = next_rowid (map dp_id (detailed_progress db)), dp_user_id = u,
            dp_skill_name = s, dp_course_name = Some c, dp_progress_percentage = p,
            dp_time_spent_minutes = 0, dp_last_activity = now,
            dp_completion_date = None, dp_notes = Some n\<rparr>])"
    by simp
  with assms(3) have "r \<in> set (set_completion_date now u s c
        (detailed_progress db @
          [\<lparr>dp_id = next_rowid (map dp_id (detailed_progress db)), dp_user_id = u,
            dp_skill_name = s, dp_course_name = Some c, dp_progress_percentage = p,
            dp_time_spent_minutes = 0, dp_last_activity = now,
            dp_completion_date = None, dp_notes = Some n\<rparr>]))"
    by simp
  then show ?thesis using assms(4-6) by (rule set_completion_date_stamps)
qed

text \<open>
  Witness for C4: the call with percentage 100 at time 20 on \<open>db_granted\<close> returns, and
  the one row it leaves for (1, Python, Intro) holds completion date 20.
\<close>

theorem update_course_progress_stamps_completion_witness:
  "update_course_progress 20 db_granted 1 ''Python'' ''Intro'' 100 '''' =
     Inr (committed db_granted
            (update_course_progress 20 db_granted 1 ''Python'' ''Intro'' 100 ''''))
   \<and> (100::int) \<le> 100
   \<and> length (detailed_progress
        (committed db_granted
           (update_course_progress 20 db_granted 1 ''Python'' ''Intro'' 100 ''''))) = 1
   \<and> dp_completion_date (hd (detailed_progress
        (committed db_granted
           (update_course_progress 20 db_granted 1 ''Python'' ''Intro'' 100 ''''))))
       = Some 20"
proof -
  let ?R = "update_course_progress 20 db_granted 1 ''Python'' ''Intro'' 100 ''''"
  let ?r = "hd (detailed_progress (committed db_granted ?R))"
  have ret: "?R = Inr (committed db_granted ?R)"
    by (simp add: update_course_progress_granted int64_def count_achievements_def
        db_granted_def committed_def)
  have h100: "(100::int) \<le> 100" by simp
  have len: "length (detailed_progress (committed db_granted ?R)) = 1"
    by (simp add: update_course_progress_granted int64_def count_achievements_def
        db_granted_def committed_def set_completion_date_def)
  have mem: "?r \<in> set (detailed_progress (committed db_granted ?R))"
    by (simp add: update_course_progress_granted int64_def count_achievements_def
        db_granted_def committed_def set_completion_date_def)
  have key: "dp_user_id ?r = 1" "dp_skill_name ?r = ''Python''"
    "dp_course_name ?r = Some ''Intro''"
    by (simp_all add: update_course_progress_granted int64_def count_achievements_def
        db_granted_def committed_def set_completion_date_def)
  have stamped: "dp_completion_date ?r = Some 20"
    by (rule update_course_progress_stamps_completion [OF ret h100 mem key])
  from ret h100 len stamped show ?thesis by (intro conjI)
qed

subsection \<open>C5: the completion achievement\<close>

text \<open>
  C5 says that after \<open>set_progress(u1, "Python", "Intro", 100, "")\<close> the user holds
  exactly one achievement named Completed Python. The code is run here on that input, for
  user 1 on the empty store. The call has written its progress row and not yet committed when
  it calls \<open>check_and_award_achievements\<close>; the callee counts 0 achievements and inserts
  through a second connection, which cannot get the write lock. The call raises
  \<open>OperationalError\<close>, nothing is committed, and the user holds no achievement.
\<close>

theorem first_completion_raises_database_locked:
  "update_course_progress 1 empty_database 1 ''Python'' ''Intro'' 100 ''''
     = Inl (OperationalError ''database is locked'')
   \<and> get_achievements
        (committed empty_database
           (update_course_progress 1 empty_database 1 ''Python'' ''Intro'' 100 ''''))
        1 = Inr []"
  by (simp add: update_course_progress_locked int64_def count_achievements_def
      empty_database_def committed_def get_achievements_def order_by_desc_def)

subsection \<open>C6: the status of a percentage\<close>



subsection \<open>C7: cumulative minutes never decrease\<close>

text \<open>
  C7 says that the minutes stored for a (user, skill) never decrease from one session to the
  next. The code is run here on sessions of 90, 30 and 10 minutes for (1, Python), at the
  times 1, 2, 3, from the empty store: the row written by the second session holds 120
  minutes, the row written by the third holds 100. \<open>get_detailed_progress\<close> lists the row
  of the latest session first: 120 after the second session, 100 after the third.
\<close>

theorem latest_minutes_decrease:
  "map_sum id (\<lambda>d. dp_time_spent_minutes (last (detailed_progress d)))
     (and_then (log_learning_session 1 empty_database 1 ''Python'' 90 '''')
        (\<lambda>d. log_learning_session 2 d 1 ''Python'' 30 '''')) = Inr 120
   \<and> map_sum id (\<lambda>d. dp_time_spent_minutes (last (detailed_progress d)))
     (and_then
        (and_then (log_learning_session 1 empty_database 1 ''Python'' 90 '''')
           (\<lambda>d. log_learning_session 2 d 1 ''Python'' 30 ''''))
        (\<lambda>d. log_learning_session 3 d 1 ''Python'' 10 '''')) = Inr 100
   \<and> and_then
       (and_then (log_learning_session 1 empty_database 1 ''Python'' 90 '''')
          (\<lambda>d. log_learning_session 2 d 1 ''Python'' 30 ''''))
       (\<lambda>d. map_sum Raises (\<lambda>ts. map minutes_of ts) (get_detailed_progress d 1))
     = Inr [120, 90]"
  by (simp add: log_learning_session_returns and_then_def int64_def empty_database_def
      get_detailed_progress_def order_by_desc_def select_time_spent_minutes_def coalesce_def
      minutes_of_def)

subsection \<open>C8: the range of the stored percentage\<close>

text \<open>
  C8, as stated, says that the stored percentage is clamped to [0,100] and that input out
  of the range is rejected. Counterexample: the call with percentage \<open>-5\<close> on the empty
  store returns and stores \<open>-5\<close>; the call with percentage 150 on \<open>db_granted\<close>
  returns and stores 150.
\<close>

theorem percentage_out_of_range_counterexample:
  "map_sum id (\<lambda>d. map dp_progress_percentage (detailed_progress d))
     (update_course_progress 1 empty_database 1 ''SQL'' '''' (-5) '''') = Inr [-5]
   \<and> map_sum id (\<lambda>d. map dp_progress_percentage (detailed_progress d))
     (update_course_progress 1 db_granted 1 ''Python'' ''Intro'' 150 '''') = Inr [150]"
  by (simp add: update_course_progress_below_100 update_course_progress_granted int64_def
      empty_database_def db_granted_def count_achievements_def set_completion_date_def)

text \<open>
  C8, amended: \<open>update_course_progress\<close> neither clamps nor rejects: a call that returns
  has stored the percentage it was given, unchanged. The range [0,100] is kept by the
  callers: when every stored percentage is within [0,100] and the given one is too (the
  form passes the value of a slider from 0 to 100), every stored percentage is within
  [0,100] after the call.
\<close>

theorem update_course_progress_stores_given_percentage:
  assumes "update_course_progress now db u s c p n = Inr db'"
  shows "dp_progress_percentage (last (detailed_progress db')) = p
         \<and> ((\<forall>r \<in> set (detailed_progress db).
                0 \<le> dp_progress_percentage r \<and> dp_progress_percentage r \<le> 100)
              \<and> 0 \<le> p \<and> p \<le> 100
            \<longrightarrow> (\<forall>r \<in> set (detailed_progress db').
                   0 \<le> dp_progress_percentage r \<and> dp_progress_percentage r \<le> 100))"
proof -
  have m: "map dp_progress_percentage (detailed_progress db') =
             map dp_progress_percentage (detailed_progress db) @ [p]"
    using assms by (rule update_course_progress_percentages)
  then have ne: "detailed_progress db' \<noteq> []" by auto
  have "dp_progress_percentage (last (detailed_progress db'))
          = last (map dp_progress_percentage (detailed_progress db'))"
    using ne by (simp add: last_map)
  also have "\<dots> = p" by (simp add: m)
  finally have a: "dp_progress_percentage (last (detailed_progress db')) = p" .
  have s: "dp_progress_percentage ` set (detailed_progress db') =
             insert p (dp_progress_percentage ` set (detailed_progress db))"
    using arg_cong [OF m, of set] by simp
  have b: "0 \<le> dp_progress_percentage r \<and> dp_progress_percentage r \<le> 100"
    if inv: "\<forall>r \<in> set (detailed_progress db).
               0 \<le> dp_progress_percentage r \<and> dp_progress_percentage r \<le> 100"
      and p: "0 \<le> p" "p \<le> 100" and r: "r \<in> set (detailed_progress db')" for r
  proof -
    from r have "dp_progress_percentage r \<in> dp_progress_percentage ` set (detailed_progress db')"
      by (rule imageI)
    with s have "dp_progress_percentage r = p
        \<or> dp_progress_percentage r \<in> dp_progress_percentage ` set (detailed_progress db)"
      by simp
    then show ?thesis using inv p by auto
  qed
  from a b show ?thesis by blast
qed

text \<open>
  Witness for C8: the call with percentage 30 on \<open>db_sql_half\<close>, whose one row holds 50.
\<close>

theorem update_course_progress_stores_given_percentage_witness:
  "update_course_progress 2 db_sql_half 1 ''SQL'' '''' 30 '''' =
     Inr (committed db_sql_half (update_course_progress 2 db_sql_half 1 ''SQL'' '''' 30 ''''))
   \<and> map dp_progress_percentage (detailed_progress db_sql_half) = [50]
   \<and> (0::int) \<le> 30 \<and> (30::int) \<le> 100
   \<and> dp_progress_percentage
        (last (detailed_progress
           (committed db_sql_half
              (update_course_progress 2 db_sql_half 1 ''SQL'' '''' 30 '''')))) = 30
   \<and> dp_progress_percentage
        (hd (detailed_progress
           (committed db_sql_half
              (update_course_progress 2 db_sql_half 1 ''SQL'' '''' 30 '''')))) \<le> 100"
proof -
  let ?R = "update_course_progress 2 db_sql_half 1 ''SQL'' '''' 30 ''''"
  let ?D = "committed db_sql_half ?R"
  have ret: "?R = Inr ?D"
    by (simp add: update_course_progress_below_100 int64_def committed_def)
  have before: "map dp_progress_percentage (detailed_progress db_sql_half) = [50]"
    by (simp add: db_sql_half_def)
  have inv: "\<forall>r \<in> set (detailed_progress db_sql_half).
               0 \<le> dp_progress_percentage r \<and> dp_progress_percentage r \<le> 100"
    by (simp add: db_sql_half_def)
  have p: "(0::int) \<le> 30" "(30::int) \<le> 100" by simp_all
  have mem: "hd (detailed_progress ?D) \<in> set (detailed_progress ?D)"
    by (simp add: update_course_progress_below_100 int64_def committed_def db_sql_half_def)
  note fact = update_course_progress_stores_given_percentage [OF ret]
  from fact have a: "dp_progress_percentage (last (detailed_progress ?D)) = 30"
    by (rule conjunct1)
  from fact inv p have "\<forall>r \<in> set (detailed_progress ?D).
      0 \<le> dp_progress_percentage r \<and> dp_progress_percentage r \<le> 100"
    by blast
  with mem have b: "dp_progress_percentage (hd (detailed_progress ?D)) \<le> 100" by blast
  from ret before p a b show ?thesis by (intro conjI)
qed

subsection \<open>C9: the last progress update wins\<close>

text \<open>
  C9 says that after two progress updates of one (user, skill) the percentage reported by
  \<open>get_detailed_progress\<close> is that of the second: the first is overwritten. The code is
  run here on the updates 50 (at time 1) and 30 (at time 2) for (1, SQL) from the empty
  store: it reports two SQL records, first the one of 30 and then the one of 50, which is
  still stored. No record holds 80.
\<close>

theorem two_updates_reported_percentages:
  "and_then
     (and_then (update_course_progress 1 empty_database 1 ''SQL'' '''' 50 '''')
        (\<lambda>d. update_course_progress 2 d 1 ''SQL'' '''' 30 ''''))
     (\<lambda>d. map_sum id
             (\<lambda>ts. map percentage_of (filter (\<lambda>t. skill_of t = ''SQL'') ts))
             (get_detailed_progress d 1))
   = Inr [30, 50]"
  by (simp add: update_course_progress_below_100 and_then_def int64_def empty_database_def
      get_detailed_progress_def order_by_desc_def percentage_of_def skill_of_def)

subsection \<open>C10: the status written to the learning plan\<close>

text \<open>
  C10 says that every call of \<open>update_course_progress\<close>, for any percentage, writes the
  derived status into the plan rows of (user, skill). The code is run here with percentage
  100 on \<open>db_planned\<close>, where user 1 has a plan row for Python and no achievement yet: the
  call raises \<open>OperationalError\<close> before its \<open>UPDATE learning_plans\<close>, and the plan row
  keeps the status \<open>not_started\<close>.
\<close>

theorem first_completion_leaves_plan_status:
  "update_course_progress 1 db_planned 1 ''Python'' ''Intro'' 100 ''''
     = Inl (OperationalError ''database is locked'')
   \<and> map lp_status
       (learning_plans
          (committed db_planned
             (update_course_progress 1 db_planned 1 ''Python'' ''Intro'' 100 '''')))
     = [''not_started'']"
  by (simp add: update_course_progress_locked int64_def count_achievements_def db_planned_def
      committed_def)

end
